theory Spec2Isabelle
  imports Main "HOL-Library.AList"
begin

section \<open>Python values, requests and responses\<close>

text \<open>
  The client of \<^verbatim>\<open>pytraccar/api.py\<close> passes dynamically typed values through to the
  HTTP layer. \<open>pyval\<close> holds the values that JSON decoding produces and that the
  callers of the client pass in: \<^verbatim>\<open>None\<close>, booleans, integers, strings, lists and
  dictionaries with string keys (in insertion order, as Python keeps them). Floats are
  left out.
\<close>

datatype pyval =
    PNone
  | PBool bool
  | PInt int
  | PStr string
  | PList "pyval list"
  | PDict "(string \<times> pyval) list"

text \<open>Truth value of a Python object, as tested by \<^verbatim>\<open>if not x\<close>.\<close>

fun truthy :: "pyval \<Rightarrow> bool" where
  "truthy PNone = False"
| "truthy (PBool b) = b"
| "truthy (PInt n) = (n \<noteq> 0)"
| "truthy (PStr s) = (s \<noteq> [])"
| "truthy (PList xs) = (xs \<noteq> [])"
| "truthy (PDict kvs) = (kvs \<noteq> [])"

text \<open>\<^verbatim>\<open>x != 0\<close>: booleans are integers in Python, so \<^verbatim>\<open>False == 0\<close>.\<close>

fun ne_zero :: "pyval \<Rightarrow> bool" where
  "ne_zero (PInt n) = (n \<noteq> 0)"
| "ne_zero (PBool b) = b"
| "ne_zero v = True"

text \<open>Lists and dictionaries cannot be dictionary keys.\<close>

fun hashable :: "pyval \<Rightarrow> bool" where
  "hashable (PList xs) = False"
| "hashable (PDict kvs) = False"
| "hashable v = True"

text \<open>
  A parameter with a default value is an \<open>option\<close>: \<open>None\<close> when the caller leaves it
  out, and \<open>dflt d\<close> puts the default of the signature in.
\<close>

definition dflt :: "pyval \<Rightarrow> pyval option \<Rightarrow> pyval" where
  "dflt d a = (case a of None \<Rightarrow> d | Some v \<Rightarrow> v)"

text \<open>
  The exceptions of \<^verbatim>\<open>pytraccar.exceptions\<close> with the arguments the client gives them,
  the Python run-time errors the client's own statements can raise, and the two failures
  of the HTTP library: a body that is not JSON, and a request that gets no response.
\<close>

datatype error =
    TraccarApiException string
  | BadRequestException string
  | ObjectNotFoundException pyval string
  | ForbiddenAccessException
  | InvalidTokenException
  | UserPermissionException
  | UnboundLocalError
  | TypeError
  | IndexError
  | KeyError
  | AttributeError
  | JSONDecodeError
  | ConnectionError

datatype http_method = GET | POST | PUT | DELETE

text \<open>\<^verbatim>\<open>data=\<close> is either a dictionary, sent form-encoded, or a string, sent as it is.\<close>

datatype payload = Form "(string \<times> pyval) list" | Raw string

text \<open>
  A request is the keyword arguments of one call of \<^verbatim>\<open>requests.Session\<close>; an argument
  that is not given is \<open>None\<close>. The query parameters are a dictionary whose key may be
  any hashable value (\<^verbatim>\<open>{query: params}\<close>).
\<close>

record request =
  meth :: http_method
  url :: string
  params :: "(pyval \<times> pyval) list option"
  data :: "payload option"
  json :: "pyval option"
  headers :: "(string \<times> string) list option"

text \<open>
  Of a response the client reads \<^verbatim>\<open>status_code\<close>, \<^verbatim>\<open>text\<close> and \<^verbatim>\<open>json()\<close>;
  \<open>decoded\<close> is \<open>None\<close> when the body is not JSON.
\<close>

record response =
  status_code :: int
  body_text :: string
  decoded :: "pyval option"

definition json_of :: "response \<Rightarrow> error + pyval" where
  "json_of req = (case decoded req of None \<Rightarrow> Inl JSONDecodeError | Some j \<Rightarrow> Inr j)"

text \<open>
  The HTTP session is modelled as a scripted server: it records every request it is
  given and answers with the next response of the script. When the script is exhausted
  the request fails, as a request to an unreachable server does. Every behaviour of a
  server over a finite run of the client is some script.
\<close>

record session =
  sent :: "request list"
  replies :: "response list"

definition session_request :: "request \<Rightarrow> session \<Rightarrow> (error + response) \<times> session" where
  "session_request rq s =
     (case replies s of
        [] \<Rightarrow> (Inl ConnectionError, s\<lparr>sent := sent s @ [rq]\<rparr>)
      | r # rs \<Rightarrow> (Inr r, \<lparr>sent = sent s @ [rq], replies = rs\<rparr>))"

text \<open>
  The two functions of Python's library whose results the client only passes on:
  \<^verbatim>\<open>str\<close> (also behind \<^verbatim>\<open>'{}/{}'.format\<close>) and \<^verbatim>\<open>json.dumps\<close>. They are
  parameters of the model, so every theorem holds for whatever they compute.
\<close>

record pylib =
  str_of :: "pyval \<Rightarrow> string"
  dumps :: "pyval \<Rightarrow> string"

section \<open>The client\<close>

datatype resource =
    Devices | Session | Geofences | Notifications | Reports_events | Reports_route
  | Reports_trips | Positions | Users | Groups | Permissions

fun path_of :: "resource \<Rightarrow> string" where
  "path_of Devices = ''/api/devices''"
| "path_of Session = ''/api/session''"
| "path_of Geofences = ''/api/geofences''"
| "path_of Notifications = ''/api/notifications''"
| "path_of Reports_events = ''/api/reports/events''"
| "path_of Reports_route = ''/api/reports/route''"
| "path_of Reports_trips = ''/api/reports/trips''"
| "path_of Positions = ''/api/positions''"
| "path_of Users = ''/api/users''"
| "path_of Groups = ''/api/groups''"
| "path_of Permissions = ''/api/permissions''"

text \<open>
  \<^verbatim>\<open>TraccarAPI\<close>: the cached token \<^verbatim>\<open>_token\<close>, the table \<^verbatim>\<open>_urls\<close> (a dictionary with
  eleven fixed keys, here a function of the key) and the HTTP session \<^verbatim>\<open>_session\<close>.
\<close>

record client =
  token :: pyval
  urls :: "resource \<Rightarrow> string"
  session :: session

text \<open>\<^verbatim>\<open>__init__\<close>; the session it opens talks to the server scripted by \<open>script\<close>.\<close>

definition init :: "string \<Rightarrow> response list \<Rightarrow> client" where
  "init base_url script =
     \<lparr>token = PStr '''',
      urls = (\<lambda>r. base_url @ path_of r),
      session = \<lparr>sent = [], replies = script\<rparr>\<rparr>"

text \<open>One call of \<^verbatim>\<open>self._session\<close>: the session changes, the rest of the client does not.\<close>

definition send :: "client \<Rightarrow> request \<Rightarrow> (error + response) \<times> client" where
  "send c rq =
     (case session_request rq (session c) of (r, s) \<Rightarrow> (r, c\<lparr>session := s\<rparr>))"

definition req_get :: "string \<Rightarrow> (pyval \<times> pyval) list option \<Rightarrow> request" where
  "req_get path ps =
     \<lparr>meth = GET, url = path, params = ps, data = None, json = None, headers = None\<rparr>"

definition json_headers :: "(string \<times> string) list" where
  "json_headers = [(''Accept'', ''application/json''), (''Content-Type'', ''application/json'')]"

subsection \<open>/api/session\<close>

definition login_with_credentials :: "client \<Rightarrow> pyval \<Rightarrow> pyval \<Rightarrow> (error + pyval) \<times> client" where
  "login_with_credentials c username password =
     (let path = urls c Session;
          dat = [(''email'', username), (''password'', password)]
      in case send c \<lparr>meth = POST, url = path, params = None, data = Some (Form dat),
                       json = None, headers = None\<rparr> of
           (Inl e, c') \<Rightarrow> (Inl e, c')
         | (Inr req, c') \<Rightarrow>
             if status_code req = 200 then (json_of req, c')
             else if status_code req = 401 then (Inl ForbiddenAccessException, c')
             else (Inl (TraccarApiException (body_text req)), c'))"

definition login_with_token :: "client \<Rightarrow> pyval \<Rightarrow> (error + pyval) \<times> client" where
  "login_with_token c tok =
     (let path = urls c Session;
          dat = [(PStr ''token'', tok)]
      in case send c (req_get path (Some dat)) of
           (Inl e, c') \<Rightarrow> (Inl e, c')
         | (Inr req, c') \<Rightarrow>
             if status_code req = 200 then (json_of req, c'\<lparr>token := tok\<rparr>)
             else if status_code req = 404 then (Inl InvalidTokenException, c')
             else (Inl (TraccarApiException (body_text req)), c'))"

subsection \<open>List-all and report fetches\<close>

text \<open>
  \<^verbatim>\<open>get_all_devices\<close>, \<^verbatim>\<open>get_all_geofences\<close>, \<^verbatim>\<open>get_all_notifications\<close> and
  \<^verbatim>\<open>get_all_users\<close> differ in the key of \<^verbatim>\<open>_urls\<close> only.
\<close>

definition get_all :: "resource \<Rightarrow> client \<Rightarrow> (error + pyval) \<times> client" where
  "get_all res c =
     (let path = urls c res;
          dat = [(PStr ''all'', PBool True)]
      in case send c (req_get path (Some dat)) of
           (Inl e, c') \<Rightarrow> (Inl e, c')
         | (Inr req, c') \<Rightarrow>
             if status_code req = 200 then (json_of req, c')
             else if status_code req = 400 then (Inl UserPermissionException, c')
             else (Inl (TraccarApiException (body_text req)), c'))"

definition get_all_devices :: "client \<Rightarrow> (error + pyval) \<times> client" where
  "get_all_devices = get_all Devices"

definition get_all_geofences :: "client \<Rightarrow> (error + pyval) \<times> client" where
  "get_all_geofences = get_all Geofences"

definition get_all_notifications :: "client \<Rightarrow> (error + pyval) \<times> client" where
  "get_all_notifications = get_all Notifications"

definition get_all_users :: "client \<Rightarrow> (error + pyval) \<times> client" where
  "get_all_users = get_all Users"

subsection \<open>Filtered lists\<close>

text \<open>
  \<^verbatim>\<open>get_devices\<close> and \<^verbatim>\<open>get_geofences\<close> differ in the key of \<^verbatim>\<open>_urls\<close> and in the
  \<^verbatim>\<open>obj_type\<close> of the exception. The dictionary \<^verbatim>\<open>{query: params}\<close> needs a hashable
  key.
\<close>

definition get_filtered ::
  "resource \<Rightarrow> string \<Rightarrow> client \<Rightarrow> pyval option \<Rightarrow> pyval option \<Rightarrow> (error + pyval) \<times> client" where
  "get_filtered res obj_type c query_arg params_arg =
     (let query = dflt PNone query_arg;
          ps = dflt PNone params_arg;
          path = urls c res
      in if truthy query \<and> \<not> hashable query then (Inl TypeError, c)
         else
           case send c (if \<not> truthy query then req_get path None
                        else req_get path (Some [(query, ps)])) of
             (Inl e, c') \<Rightarrow> (Inl e, c')
           | (Inr req, c') \<Rightarrow>
               if status_code req = 200 then (json_of req, c')
               else if status_code req = 400 then (Inl (ObjectNotFoundException ps obj_type), c')
               else (Inl (TraccarApiException (body_text req)), c'))"

definition get_devices :: "client \<Rightarrow> pyval option \<Rightarrow> pyval option \<Rightarrow> (error + pyval) \<times> client" where
  "get_devices = get_filtered Devices ''Device''"

definition get_geofences :: "client \<Rightarrow> pyval option \<Rightarrow> pyval option \<Rightarrow> (error + pyval) \<times> client" where
  "get_geofences = get_filtered Geofences ''Geofence''"

subsection \<open>Create\<close>

text \<open>The three create operations share the request and the dispatch on the status.\<close>

definition post_json :: "client \<Rightarrow> string \<Rightarrow> pyval \<Rightarrow> (error + pyval) \<times> client" where
  "post_json c path dat =
     (case send c \<lparr>meth = POST, url = path, params = None, data = None,
                    json = Some dat, headers = None\<rparr> of
        (Inl e, c') \<Rightarrow> (Inl e, c')
      | (Inr req, c') \<Rightarrow>
          if status_code req = 200 then (json_of req, c')
          else if status_code req = 400 then (Inl (BadRequestException (body_text req)), c')
          else (Inl (TraccarApiException (body_text req)), c'))"

definition create_device_data ::
  "pyval \<Rightarrow> pyval \<Rightarrow> pyval option \<Rightarrow> pyval option \<Rightarrow> pyval option \<Rightarrow> pyval option \<Rightarrow>
   pyval option \<Rightarrow> (string \<times> pyval) list" where
  "create_device_data name unique_id group_id phone model contact category =
     [(''id'', PInt (- 1)),
      (''name'', name),
      (''uniqueId'', unique_id),
      (''phone'', dflt (PStr '''') phone),
      (''model'', dflt (PStr '''') model),
      (''contact'', dflt (PStr '''') contact),
      (''category'', dflt PNone category),
      (''groupId'', dflt (PInt 0) group_id)]"

definition create_device ::
  "client \<Rightarrow> pyval \<Rightarrow> pyval \<Rightarrow> pyval option \<Rightarrow> pyval option \<Rightarrow> pyval option \<Rightarrow> pyval option \<Rightarrow>
   pyval option \<Rightarrow> (error + pyval) \<times> client" where
  "create_device c name unique_id group_id phone model contact category =
     post_json c (urls c Devices)
       (PDict (create_device_data name unique_id group_id phone model contact category))"

text \<open>
  \<^verbatim>\<open>create_geofence\<close> takes \<^verbatim>\<open>calendarId\<close> and \<^verbatim>\<open>attributes\<close> and does not use them.
\<close>

definition create_geofence_data ::
  "pylib \<Rightarrow> pyval \<Rightarrow> pyval \<Rightarrow> pyval option \<Rightarrow> pyval option \<Rightarrow> pyval option \<Rightarrow>
   (string \<times> pyval) list" where
  "create_geofence_data L name area description calendarId attributes =
     [(''id'', PInt (- 1)),
      (''name'', name),
      (''description'', dflt (PStr '''') description),
      (''area'', PStr (str_of L area))]"

definition create_geofence ::
  "pylib \<Rightarrow> client \<Rightarrow> pyval \<Rightarrow> pyval \<Rightarrow> pyval option \<Rightarrow> pyval option \<Rightarrow> pyval option \<Rightarrow>
   (error + pyval) \<times> client" where
  "create_geofence L c name area description calendarId attributes =
     post_json c (urls c Geofences)
       (PDict (create_geofence_data L name area description calendarId attributes))"

definition create_user_data ::
  "pyval \<Rightarrow> pyval \<Rightarrow> pyval option \<Rightarrow> pyval option \<Rightarrow> (string \<times> pyval) list" where
  "create_user_data name email administrator tok =
     [(''id'', PInt (- 1)),
      (''name'', name),
      (''email'', email),
      (''administrator'', dflt (PBool False) administrator),
      (''token'', dflt PNone tok),
      (''attributes'', PDict [(''speedUnit'', PStr ''kmh'')])]"

definition create_user ::
  "client \<Rightarrow> pyval \<Rightarrow> pyval \<Rightarrow> pyval option \<Rightarrow> pyval option \<Rightarrow> (error + pyval) \<times> client" where
  "create_user c name email administrator tok =
     post_json c (urls c Users) (PDict (create_user_data name email administrator tok))"

subsection \<open>Update\<close>

text \<open>\<^verbatim>\<open>req[0]\<close> on the value that \<^verbatim>\<open>get_devices\<close> returned.\<close>

fun getitem0 :: "pyval \<Rightarrow> error + pyval" where
  "getitem0 (PList []) = Inl IndexError"
| "getitem0 (PList (x # xs)) = Inr x"
| "getitem0 (PStr []) = Inl IndexError"
| "getitem0 (PStr (ch # s)) = Inr (PStr [ch])"
| "getitem0 (PDict kvs) = Inl KeyError"
| "getitem0 v = Inl TypeError"

text \<open>\<^verbatim>\<open>device_info.items()\<close>: only a dictionary has the method.\<close>

fun items :: "pyval \<Rightarrow> error + (string \<times> pyval) list" where
  "items (PDict kvs) = Inr kvs"
| "items v = Inl AttributeError"

text \<open>
  The expression \<^verbatim>\<open>value if update.get(key) is None else update[key]\<close>:
  \<^verbatim>\<open>update.get(key)\<close> is \<^verbatim>\<open>None\<close> for a key that \<^verbatim>\<open>update\<close> does not have.
\<close>

definition overlay :: "(string \<times> pyval) list \<Rightarrow> string \<Rightarrow> pyval \<Rightarrow> pyval" where
  "overlay update key val =
     (case map_of update key of
        None \<Rightarrow> val
      | Some u \<Rightarrow> if u = PNone then val else u)"

text \<open>
  The dictionary comprehension \<^verbatim>\<open>{key: ... for key, value in info.items()}\<close> stores
  one entry after the other into a dictionary that starts empty.
\<close>

definition merge_update :: "(string \<times> pyval) list \<Rightarrow> (string \<times> pyval) list \<Rightarrow> (string \<times> pyval) list" where
  "merge_update update info =
     foldl (\<lambda>d (key, val). AList.update key (overlay update key val) d) [] info"

definition device_update ::
  "pyval option \<Rightarrow> pyval option \<Rightarrow> pyval option \<Rightarrow> pyval option \<Rightarrow> pyval option \<Rightarrow>
   pyval option \<Rightarrow> pyval option \<Rightarrow> (string \<times> pyval) list" where
  "device_update name unique_id group_id phone model contact category =
     [(''name'', dflt PNone name),
      (''uniqueId'', dflt PNone unique_id),
      (''phone'', dflt PNone phone),
      (''model'', dflt PNone model),
      (''contact'', dflt PNone contact),
      (''category'', dflt PNone category),
      (''groupId'', dflt PNone group_id)]"

definition geofence_update ::
  "pyval option \<Rightarrow> pyval option \<Rightarrow> pyval option \<Rightarrow> pyval option \<Rightarrow> pyval option \<Rightarrow>
   (string \<times> pyval) list" where
  "geofence_update name area description calendarId attributes =
     [(''name'', dflt PNone name),
      (''area'', dflt PNone area),
      (''description'', dflt PNone description),
      (''calendarId'', dflt PNone calendarId),
      (''attributes'', dflt PNone attributes)]"

text \<open>The request of the second step: the merged record, serialised by the caller.\<close>

definition req_put :: "pylib \<Rightarrow> string \<Rightarrow> pyval \<Rightarrow> (string \<times> pyval) list \<Rightarrow> request" where
  "req_put L path ident dat =
     \<lparr>meth = PUT, url = path @ ''/'' @ str_of L ident, params = None,
      data = Some (Raw (dumps L (PDict dat))), json = None,
      headers = Some [(''Content-Type'', ''application/json'')]\<rparr>"

text \<open>
  The part that \<^verbatim>\<open>update_device\<close> and \<^verbatim>\<open>update_geofence\<close> share: \<open>fetched\<close> is the
  outcome of the filtered list by \<^verbatim>\<open>id\<close>, whose exceptions pass through.
\<close>

definition put_merged ::
  "pylib \<Rightarrow> string \<Rightarrow> pyval \<Rightarrow> (string \<times> pyval) list \<Rightarrow> (error + pyval) \<times> client \<Rightarrow>
   (error + pyval) \<times> client" where
  "put_merged L path ident update fetched =
     (case fetched of
        (Inl e, c1) \<Rightarrow> (Inl e, c1)
      | (Inr req, c1) \<Rightarrow>
          (case getitem0 req of
             Inl e \<Rightarrow> (Inl e, c1)
           | Inr info \<Rightarrow>
               (case items info of
                  Inl e \<Rightarrow> (Inl e, c1)
                | Inr kvs \<Rightarrow>
                    (case send c1 (req_put L path ident (merge_update update kvs)) of
                       (Inl e, c2) \<Rightarrow> (Inl e, c2)
                     | (Inr req2, c2) \<Rightarrow>
                         if status_code req2 = 200 then (json_of req2, c2)
                         else if status_code req2 = 400
                           then (Inl (BadRequestException (body_text req2)), c2)
                         else (Inl (TraccarApiException (body_text req2)), c2)))))"

definition update_device ::
  "pylib \<Rightarrow> client \<Rightarrow> pyval \<Rightarrow> pyval option \<Rightarrow> pyval option \<Rightarrow> pyval option \<Rightarrow> pyval option \<Rightarrow>
   pyval option \<Rightarrow> pyval option \<Rightarrow> pyval option \<Rightarrow> (error + pyval) \<times> client" where
  "update_device L c device_id name unique_id group_id phone model contact category =
     put_merged L (urls c Devices) device_id
       (device_update name unique_id group_id phone model contact category)
       (get_devices c (Some (PStr ''id'')) (Some device_id))"

definition update_geofence ::
  "pylib \<Rightarrow> client \<Rightarrow> pyval \<Rightarrow> pyval option \<Rightarrow> pyval option \<Rightarrow> pyval option \<Rightarrow> pyval option \<Rightarrow>
   pyval option \<Rightarrow> (error + pyval) \<times> client" where
  "update_geofence L c geofence_id name area description calendarId attributes =
     put_merged L (urls c Geofences) geofence_id
       (geofence_update name area description calendarId attributes)
       (get_geofences c (Some (PStr ''id'')) (Some geofence_id))"

subsection \<open>Delete\<close>

definition delete_at :: "pylib \<Rightarrow> resource \<Rightarrow> client \<Rightarrow> pyval \<Rightarrow> (error + pyval) \<times> client" where
  "delete_at L res c ident =
     (case send c \<lparr>meth = DELETE, url = urls c res @ ''/'' @ str_of L ident, params = None,
                    data = None, json = None, headers = None\<rparr> of
        (Inl e, c') \<Rightarrow> (Inl e, c')
      | (Inr req, c') \<Rightarrow>
          if status_code req \<noteq> 204 then (Inl (TraccarApiException (body_text req)), c')
          else (Inr PNone, c'))"

definition delete_device :: "pylib \<Rightarrow> client \<Rightarrow> pyval \<Rightarrow> (error + pyval) \<times> client" where
  "delete_device L = delete_at L Devices"

definition delete_geofence :: "pylib \<Rightarrow> client \<Rightarrow> pyval \<Rightarrow> (error + pyval) \<times> client" where
  "delete_geofence L = delete_at L Geofences"

subsection \<open>Reports, positions and groups\<close>

text \<open>The dispatch that the report fetches share, on the outcome of their request.\<close>

definition report_result :: "(error + response) \<times> client \<Rightarrow> (error + pyval) \<times> client" where
  "report_result out =
     (case out of
        (Inl e, c') \<Rightarrow> (Inl e, c')
      | (Inr req, c') \<Rightarrow>
          if status_code req = 200 then (json_of req, c')
          else if status_code req = 400 then (Inl UserPermissionException, c')
          else (Inl (TraccarApiException (body_text req)), c'))"

text \<open>
  \<^verbatim>\<open>get_events\<close>: the two assignments \<^verbatim>\<open>data['type'] = "%"\<close> and
  \<^verbatim>\<open>data['groupId'] = "1"\<close> replace the value of a key that the dictionary has.
  The parameter \<^verbatim>\<open>deviceid\<close> is not used.
\<close>

definition get_events_data ::
  "pyval \<Rightarrow> pyval \<Rightarrow> pyval option \<Rightarrow> pyval option \<Rightarrow> (pyval \<times> pyval) list" where
  "get_events_data startTime endTime event_type groupId =
     (let d0 = [(PStr ''from'', startTime),
                (PStr ''to'', endTime),
                (PStr ''groupId'', dflt PNone groupId),
                (PStr ''type'', dflt PNone event_type)];
          d1 = (if \<not> truthy (dflt PNone event_type)
                then AList.update (PStr ''type'') (PStr ''%'') d0 else d0);
          d2 = (if \<not> truthy (dflt PNone groupId)
                then AList.update (PStr ''groupId'') (PStr ''1'') d1 else d1)
      in d2)"

definition get_events ::
  "client \<Rightarrow> pyval \<Rightarrow> pyval \<Rightarrow> pyval option \<Rightarrow> pyval option \<Rightarrow> pyval option \<Rightarrow>
   (error + pyval) \<times> client" where
  "get_events c startTime endTime event_type deviceid groupId =
     report_result
       (send c (req_get (urls c Reports_events)
                  (Some (get_events_data startTime endTime event_type groupId))))"

definition get_positions ::
  "client \<Rightarrow> pyval option \<Rightarrow> pyval option \<Rightarrow> pyval option \<Rightarrow> pyval option \<Rightarrow>
   (error + pyval) \<times> client" where
  "get_positions c deviceId startTime endTime position_id =
     report_result
       (send c (req_get (urls c Positions)
                  (Some [(PStr ''deviceId'', dflt PNone deviceId),
                         (PStr ''from'', dflt PNone startTime),
                         (PStr ''to'', dflt PNone endTime),
                         (PStr ''id'', dflt PNone position_id)])))"

definition get_trips_data :: "pyval \<Rightarrow> pyval \<Rightarrow> pyval option \<Rightarrow> (pyval \<times> pyval) list" where
  "get_trips_data startTime endTime groupId =
     (let d0 = [(PStr ''from'', startTime),
                (PStr ''to'', endTime),
                (PStr ''groupId'', dflt PNone groupId)]
      in if \<not> truthy (dflt PNone groupId)
         then AList.update (PStr ''groupId'') (PStr ''1'') d0 else d0)"

definition get_trips ::
  "client \<Rightarrow> pyval \<Rightarrow> pyval \<Rightarrow> pyval option \<Rightarrow> pyval option \<Rightarrow> (error + pyval) \<times> client" where
  "get_trips c startTime endTime deviceid groupId =
     report_result
       (send c ((req_get (urls c Reports_trips)
                   (Some (get_trips_data startTime endTime groupId)))
                \<lparr>headers := Some json_headers\<rparr>))"

definition get_groups :: "client \<Rightarrow> pyval option \<Rightarrow> (error + pyval) \<times> client" where
  "get_groups c userId =
     report_result
       (send c (req_get (urls c Groups) (Some [(PStr ''userId'', dflt PNone userId)])))"

definition get_route :: "client \<Rightarrow> pyval \<Rightarrow> pyval \<Rightarrow> pyval \<Rightarrow> (error + pyval) \<times> client" where
  "get_route c deviceid startTime endTime =
     report_result
       (send c ((req_get (urls c Reports_route)
                   (Some [(PStr ''deviceId'', deviceid),
                          (PStr ''from'', startTime),
                          (PStr ''to'', endTime)]))
                \<lparr>headers := Some json_headers\<rparr>))"

subsection \<open>/api/permissions\<close>

text \<open>
  The local variable \<^verbatim>\<open>data\<close> of \<^verbatim>\<open>set_permissions\<close> is assigned in two of the three
  branches; \<open>None\<close> is the variable left unbound.
\<close>

definition permissions_data :: "pyval \<Rightarrow> pyval option \<Rightarrow> pyval option \<Rightarrow> (string \<times> pyval) list option" where
  "permissions_data userId deviceId groupId =
     (if ne_zero (dflt (PInt 0) deviceId)
      then Some [(''userId'', userId), (''deviceId'', dflt (PInt 0) deviceId)]
      else if ne_zero (dflt (PInt 0) groupId)
      then Some [(''userId'', userId), (''groupId'', dflt (PInt 0) groupId)]
      else None)"

text \<open>
  Reading the unbound \<^verbatim>\<open>data\<close> for the argument \<^verbatim>\<open>json=data\<close> raises before the
  request is made.
\<close>

definition set_permissions ::
  "client \<Rightarrow> pyval \<Rightarrow> pyval option \<Rightarrow> pyval option \<Rightarrow> (error + pyval) \<times> client" where
  "set_permissions c userId deviceId groupId =
     (let path = urls c Permissions
      in case permissions_data userId deviceId groupId of
           None \<Rightarrow> (Inl UnboundLocalError, c)
         | Some dat \<Rightarrow>
             (case send c \<lparr>meth = POST, url = path, params = None, data = None,
                            json = Some (PDict dat), headers = None\<rparr> of
                (Inl e, c') \<Rightarrow> (Inl e, c')
              | (Inr req, c') \<Rightarrow>
                  if status_code req = 204 then (Inr (PDict dat), c')
                  else if status_code req = 400
                    then (Inl (BadRequestException (body_text req)), c')
                  else (Inl (TraccarApiException (body_text req)), c')))"

section \<open>Runs of the client\<close>

text \<open>One constructor for each public operation of the class, with its arguments.\<close>

datatype call =
    Token
  | Login_with_credentials pyval pyval
  | Login_with_token pyval
  | Get_all_devices
  | Get_devices "pyval option" "pyval option"
  | Create_device pyval pyval "pyval option" "pyval option" "pyval option" "pyval option" "pyval option"
  | Update_device pyval "pyval option" "pyval option" "pyval option" "pyval option" "pyval option"
      "pyval option" "pyval option"
  | Delete_device pyval
  | Get_all_geofences
  | Get_geofences "pyval option" "pyval option"
  | Create_geofence pyval pyval "pyval option" "pyval option" "pyval option"
  | Update_geofence pyval "pyval option" "pyval option" "pyval option" "pyval option" "pyval option"
  | Delete_geofence pyval
  | Get_all_notifications
  | Get_events pyval pyval "pyval option" "pyval option" "pyval option"
  | Get_positions "pyval option" "pyval option" "pyval option" "pyval option"
  | Get_trips pyval pyval "pyval option" "pyval option"
  | Get_all_users
  | Create_user pyval pyval "pyval option" "pyval option"
  | Set_permissions pyval "pyval option" "pyval option"
  | Get_groups "pyval option"
  | Get_route pyval pyval pyval

fun exec :: "pylib \<Rightarrow> client \<Rightarrow> call \<Rightarrow> (error + pyval) \<times> client" where
  "exec L c Token = (Inr (token c), c)"
| "exec L c (Login_with_credentials u p) = login_with_credentials c u p"
| "exec L c (Login_with_token t) = login_with_token c t"
| "exec L c Get_all_devices = get_all_devices c"
| "exec L c (Get_devices q p) = get_devices c q p"
| "exec L c (Create_device n u g ph m co ca) = create_device c n u g ph m co ca"
| "exec L c (Update_device i n u g ph m co ca) = update_device L c i n u g ph m co ca"
| "exec L c (Delete_device i) = delete_device L c i"
| "exec L c Get_all_geofences = get_all_geofences c"
| "exec L c (Get_geofences q p) = get_geofences c q p"
| "exec L c (Create_geofence n a d cal at) = create_geofence L c n a d cal at"
| "exec L c (Update_geofence i n a d cal at) = update_geofence L c i n a d cal at"
| "exec L c (Delete_geofence i) = delete_geofence L c i"
| "exec L c Get_all_notifications = get_all_notifications c"
| "exec L c (Get_events s e t d g) = get_events c s e t d g"
| "exec L c (Get_positions d s e i) = get_positions c d s e i"
| "exec L c (Get_trips s e d g) = get_trips c s e d g"
| "exec L c Get_all_users = get_all_users c"
| "exec L c (Create_user n e a t) = create_user c n e a t"
| "exec L c (Set_permissions u d g) = set_permissions c u d g"
| "exec L c (Get_groups u) = get_groups c u"
| "exec L c (Get_route d s e) = get_route c d s e"

text \<open>
  A run: the calls one after the other on the same client. An exception ends a call,
  not the run (the caller may catch it and go on).
\<close>

fun run :: "pylib \<Rightarrow> client \<Rightarrow> call list \<Rightarrow> client" where
  "run L c [] = c"
| "run L c (x # xs) = run L (snd (exec L c x)) xs"

section \<open>Values for the examples\<close>

text \<open>
  An instance of the library parameter for closed examples; no example depends on what
  its two functions return.
\<close>

definition stub_lib :: pylib where
  "stub_lib = \<lparr>str_of = (\<lambda>v. []), dumps = (\<lambda>v. [])\<rparr>"

text \<open>A response with the given status, text and decoded body.\<close>

definition reply :: "int \<Rightarrow> string \<Rightarrow> pyval option \<Rightarrow> response" where
  "reply st txt j = \<lparr>status_code = st, body_text = txt, decoded = j\<rparr>"

section \<open>The session\<close>

text \<open>
  A request is always recorded; it is answered when the script has a response left.
  Neither the token nor the URL table changes.
\<close>

lemma send_reply:
  "replies (session c) = r # rs \<Longrightarrow>
   send c rq = (Inr r, c\<lparr>session := \<lparr>sent = sent (session c) @ [rq], replies = rs\<rparr>\<rparr>)"
  by (simp add: send_def session_request_def)

lemma send_no_reply:
  "replies (session c) = [] \<Longrightarrow>
   send c rq = (Inl ConnectionError, c\<lparr>session := (session c)\<lparr>sent := sent (session c) @ [rq]\<rparr>\<rparr>)"
  by (simp add: send_def session_request_def)

lemma token_send: "token (snd (send c rq)) = token c"
  by (simp add: send_def session_request_def split: list.splits)

lemma urls_send: "urls (snd (send c rq)) = urls c"
  by (simp add: send_def session_request_def split: list.splits)

lemma sent_send: "sent (session (snd (send c rq))) = sent (session c) @ [rq]"
  by (simp add: send_def session_request_def split: list.splits)

lemma sent_report_result:
  "sent (session (snd (report_result (send c rq)))) = sent (session c) @ [rq]"
  using sent_send [of c rq]
  by (cases "send c rq") (auto simp: report_result_def split: sum.splits)

lemma get_events_data_eq:
  "get_events_data s e t g =
     [(PStr ''from'', s),
      (PStr ''to'', e),
      (PStr ''groupId'', if truthy (dflt PNone g) then dflt PNone g else PStr ''1''),
      (PStr ''type'', if truthy (dflt PNone t) then dflt PNone t else PStr ''%'')]"
  by (simp add: get_events_data_def Let_def)

section \<open>The merge of an update\<close>

text \<open>
  On a dictionary, whose keys are distinct, the comprehension is a map over the entries:
  each stored key is new, so it goes to the end.
\<close>

lemma update_fresh:
  "k \<notin> fst ` set d \<Longrightarrow> AList.update k v d = d @ [(k, v)]"
  by (induction d) auto

lemma foldl_update_distinct:
  assumes "distinct (map fst kvs)" and "fst ` set acc \<inter> fst ` set kvs = {}"
  shows "foldl (\<lambda>d (key, val). AList.update key (f key val) d) acc kvs
           = acc @ map (\<lambda>(key, val). (key, f key val)) kvs"
  using assms
proof (induction kvs arbitrary: acc)
  case Nil
  then show ?case by simp
next
  case (Cons kv kvs)
  obtain k v where kv: "kv = (k, v)" by (cases kv)
  have fresh: "k \<notin> fst ` set acc" using Cons.prems(2) kv by auto
  have step: "AList.update k (f k v) acc = acc @ [(k, f k v)]"
    using fresh by (rule update_fresh)
  have "fst ` set (acc @ [(k, f k v)]) \<inter> fst ` set kvs = {}"
    using Cons.prems kv by auto
  with Cons.IH [of "acc @ [(k, f k v)]"] Cons.prems(1) kv step show ?case by simp
qed

lemma merge_update_distinct:
  "distinct (map fst info) \<Longrightarrow>
   merge_update upd info = map (\<lambda>(key, val). (key, overlay upd key val)) info"
  by (simp add: merge_update_def foldl_update_distinct)



lemma map_of_merge_update:
  "distinct (map fst info) \<Longrightarrow>
   map_of (merge_update upd info) k = map_option (overlay upd k) (map_of info k)"
  by (simp add: merge_update_distinct) (induction info, auto)

lemma map_of_merge_update_Some:
  assumes "distinct (map fst info)" and "map_of info k = Some v"
  shows "map_of (merge_update upd info) k
           = Some (case map_of upd k of None \<Rightarrow> v
                   | Some x \<Rightarrow> if x = PNone then v else x)"
  using assms by (simp add: map_of_merge_update overlay_def)

lemma put_merged_sent:
  assumes "replies (session c) = r # rs" and "status_code r = 200"
    and "decoded r = Some (PList (PDict info # rest))"
  shows "sent (session (snd (put_merged L path i upd
            (get_filtered res ty c (Some (PStr ''id'')) (Some i)))))
         = sent (session c) @
             [req_get (urls c res) (Some [(PStr ''id'', i)]),
              req_put L path i (merge_update upd info)]"
proof -
  let ?c1 = "c\<lparr>session := \<lparr>sent = sent (session c) @
               [req_get (urls c res) (Some [(PStr ''id'', i)])], replies = rs\<rparr>\<rparr>"
  have fetched: "get_filtered res ty c (Some (PStr ''id'')) (Some i)
                   = (Inr (PList (PDict info # rest)), ?c1)"
    using assms by (simp add: get_filtered_def dflt_def Let_def send_reply json_of_def)
  have "sent (session (snd (send ?c1 (req_put L path i (merge_update upd info)))))
          = sent (session ?c1) @ [req_put L path i (merge_update upd info)]"
    by (rule sent_send)
  then show ?thesis
    by (cases "send ?c1 (req_put L path i (merge_update upd info))")
       (auto simp: fetched put_merged_def split: sum.splits)
qed

lemma overlay_device_update:
  "overlay (device_update n u g ph m co ca) k v =
     (if k = ''name'' then (case n of None \<Rightarrow> v | Some x \<Rightarrow> if x = PNone then v else x)
      else if k = ''uniqueId'' then (case u of None \<Rightarrow> v | Some x \<Rightarrow> if x = PNone then v else x)
      else if k = ''phone'' then (case ph of None \<Rightarrow> v | Some x \<Rightarrow> if x = PNone then v else x)
      else if k = ''model'' then (case m of None \<Rightarrow> v | Some x \<Rightarrow> if x = PNone then v else x)
      else if k = ''contact'' then (case co of None \<Rightarrow> v | Some x \<Rightarrow> if x = PNone then v else x)
      else if k = ''category'' then (case ca of None \<Rightarrow> v | Some x \<Rightarrow> if x = PNone then v else x)
      else if k = ''groupId'' then (case g of None \<Rightarrow> v | Some x \<Rightarrow> if x = PNone then v else x)
      else v)"
  by (simp add: overlay_def device_update_def dflt_def split: option.splits)

lemma overlay_geofence_update:
  "overlay (geofence_update n a d cal at) k v =
     (if k = ''name'' then (case n of None \<Rightarrow> v | Some x \<Rightarrow> if x = PNone then v else x)
      else if k = ''area'' then (case a of None \<Rightarrow> v | Some x \<Rightarrow> if x = PNone then v else x)
      else if k = ''description'' then (case d of None \<Rightarrow> v | Some x \<Rightarrow> if x = PNone then v else x)
      else if k = ''calendarId'' then (case cal of None \<Rightarrow> v | Some x \<Rightarrow> if x = PNone then v else x)
      else if k = ''attributes'' then (case at of None \<Rightarrow> v | Some x \<Rightarrow> if x = PNone then v else x)
      else v)"
  by (simp add: overlay_def geofence_update_def dflt_def split: option.splits)

section \<open>The token through each operation\<close>

lemma token_report_result:
  "token (snd (report_result (send c rq))) = token c"
  using token_send [of c rq]
  by (cases "send c rq") (auto simp: report_result_def split: sum.splits)

lemma token_get_all: "token (snd (get_all res c)) = token c"
  using token_send [of c "req_get (urls c res) (Some [(PStr ''all'', PBool True)])"]
  by (auto simp: get_all_def Let_def split: prod.splits sum.splits)

lemma token_get_filtered: "token (snd (get_filtered res ty c q p)) = token c"
  using token_send [of c "req_get (urls c res) None"]
    token_send [of c "req_get (urls c res) (Some [(dflt PNone q, dflt PNone p)])"]
  by (auto simp: get_filtered_def Let_def split: prod.splits sum.splits)

lemma token_post_json: "token (snd (post_json c path dat)) = token c"
  using token_send [of c "\<lparr>meth = POST, url = path, params = None, data = None,
                    json = Some dat, headers = None\<rparr>"]
  by (auto simp: post_json_def split: prod.splits sum.splits)

lemma token_put_merged:
  assumes "token (snd fetched) = token c"
  shows "token (snd (put_merged L path ident upd fetched)) = token c"
proof (cases fetched)
  case (Pair out c1)
  note f = this
  show ?thesis
  proof (cases out)
    case (Inl e)
    with f assms show ?thesis by (simp add: put_merged_def)
  next
    case (Inr req)
    show ?thesis
    proof (cases "getitem0 req")
      case (Inl e)
      with f Inr assms show ?thesis by (simp add: put_merged_def)
    next
      case info: (Inr info)
      show ?thesis
      proof (cases "items info")
        case (Inl e)
        with f Inr info assms show ?thesis by (simp add: put_merged_def)
      next
        case kvs: (Inr kvs)
        have "token (snd (send c1 (req_put L path ident (merge_update upd kvs)))) = token c"
          using assms f by (simp add: token_send)
        with f Inr info kvs show ?thesis
          by (cases "send c1 (req_put L path ident (merge_update upd kvs))")
             (auto simp: put_merged_def split: sum.splits)
      qed
    qed
  qed
qed

lemma token_delete_at: "token (snd (delete_at L res c i)) = token c"
  using token_send [of c "\<lparr>meth = DELETE, url = urls c res @ ''/'' @ str_of L i, params = None,
                    data = None, json = None, headers = None\<rparr>"]
  by (auto simp: delete_at_def split: prod.splits sum.splits)

lemma token_set_permissions: "token (snd (set_permissions c u d g)) = token c"
proof (cases "permissions_data u d g")
  case None
  then show ?thesis by (simp add: set_permissions_def)
next
  case (Some dat)
  then show ?thesis
    using token_send [of c "\<lparr>meth = POST, url = urls c Permissions, params = None, data = None,
                            json = Some (PDict dat), headers = None\<rparr>"]
    by (auto simp: set_permissions_def Let_def split: prod.splits sum.splits)
qed

lemma token_login_with_credentials:
  "token (snd (login_with_credentials c u p)) = token c"
  using token_send [of c "\<lparr>meth = POST, url = urls c Session, params = None,
      data = Some (Form [(''email'', u), (''password'', p)]), json = None, headers = None\<rparr>"]
  by (auto simp: login_with_credentials_def Let_def split: prod.splits sum.splits)

lemma token_login_with_token:
  "token (snd (login_with_token c t)) =
     (case replies (session c) of
        [] \<Rightarrow> token c
      | r # rs \<Rightarrow> if status_code r = 200 then t else token c)"
  by (cases "replies (session c)")
     (simp_all add: login_with_token_def Let_def send_reply send_no_reply)

lemma token_exec_other:
  assumes "\<forall>t. x \<noteq> Login_with_token t"
  shows "token (snd (exec L c x)) = token c"
  using assms
  by (cases x)
     (simp_all add: token_login_with_credentials token_get_all token_get_filtered
        token_post_json token_put_merged token_delete_at token_set_permissions
        token_report_result get_all_devices_def get_all_geofences_def
        get_all_notifications_def get_all_users_def get_devices_def get_geofences_def
        create_device_def create_geofence_def create_user_def update_device_def
        update_geofence_def delete_device_def delete_geofence_def get_events_def
        get_positions_def get_trips_def get_groups_def get_route_def)

lemma token_run_no_token_login:
  assumes "\<forall>t. Login_with_token t \<notin> set xs"
  shows "token (run L c xs) = token c"
  using assms
proof (induction xs arbitrary: c)
  case Nil
  then show ?case by simp
next
  case (Cons x xs)
  have "\<forall>t. x \<noteq> Login_with_token t" using Cons.prems by auto
  then have "token (snd (exec L c x)) = token c" by (rule token_exec_other)
  moreover have "token (run L (snd (exec L c x)) xs) = token (snd (exec L c x))"
    using Cons.prems by (intro Cons.IH) auto
  ultimately show ?case by simp
qed

section \<open>Filtered lists with a falsy query\<close>

lemma get_filtered_falsy:
  assumes "\<not> truthy (dflt PNone q)"
  shows "get_filtered res ty c q p =
           (case send c \<lparr>meth = GET, url = urls c res, params = None, data = None,
                          json = None, headers = None\<rparr> of
              (Inl e, c') \<Rightarrow> (Inl e, c')
            | (Inr req, c') \<Rightarrow>
                if status_code req = 200 then (json_of req, c')
                else if status_code req = 400
                  then (Inl (ObjectNotFoundException (dflt PNone p) ty), c')
                else (Inl (TraccarApiException (body_text req)), c'))"
  using assms by (simp add: get_filtered_def Let_def req_get_def)

lemma get_filtered_falsy_sent:
  assumes "\<not> truthy (dflt PNone q)"
  shows "sent (session (snd (get_filtered res ty c q p)))
           = sent (session c) @
               [\<lparr>meth = GET, url = urls c res, params = None, data = None,
                 json = None, headers = None\<rparr>]"
  using sent_send [of c "\<lparr>meth = GET, url = urls c res, params = None, data = None,
                 json = None, headers = None\<rparr>"]
  by (auto simp: get_filtered_falsy [OF assms] split: prod.splits sum.splits)

lemma get_filtered_falsy_session:
  assumes "\<not> truthy (dflt PNone q)"
  shows "snd (get_filtered res ty c q p) = snd (get_filtered res ty c q p')"
  by (auto simp: get_filtered_falsy [OF assms] split: prod.splits sum.splits)

lemma get_filtered_falsy_ok:
  assumes "\<not> truthy (dflt PNone q)" and "replies (session c) = r # rs"
    and "status_code r = 200"
  shows "fst (get_filtered res ty c q p) = json_of r"
  using assms(2,3) by (simp add: get_filtered_falsy [OF assms(1)] send_reply)

lemma get_filtered_falsy_not_400:
  assumes "\<not> truthy (dflt PNone q)" and "replies (session c) = r # rs"
    and "status_code r \<noteq> 400"
  shows "get_filtered res ty c q p = get_filtered res ty c q None"
  using assms(2,3) by (simp add: get_filtered_falsy [OF assms(1)] send_reply)

lemma get_filtered_falsy_400:
  assumes "\<not> truthy (dflt PNone q)" and "replies (session c) = r # rs"
    and "status_code r = 400"
  shows "fst (get_filtered res ty c q p)
           = Inl (ObjectNotFoundException (case p of None \<Rightarrow> PNone | Some v \<Rightarrow> v) ty)"
  using assms(2,3) by (simp add: get_filtered_falsy [OF assms(1)] send_reply dflt_def)

section \<open>Claims\<close>

text \<open>
  Claim C1. \<^verbatim>\<open>update_device\<close> and \<^verbatim>\<open>update_geofence\<close> on an existing record (the
  filtered list by \<^verbatim>\<open>id\<close> answers 200 with a list whose first element is a dictionary
  \<open>info\<close>): the second request is the PUT, to the URL of the resource followed by the
  identifier, of the serialised merged record. The merged record has the entries of the
  fetched record in their order; the value of \<^verbatim>\<open>name\<close> is the caller's \<^verbatim>\<open>name\<close> when
  that was given and is not \<^verbatim>\<open>None\<close>, and the fetched value otherwise, and likewise
  \<^verbatim>\<open>uniqueId\<close>, \<^verbatim>\<open>phone\<close>, \<^verbatim>\<open>model\<close>, \<^verbatim>\<open>contact\<close>, \<^verbatim>\<open>category\<close> and
  \<^verbatim>\<open>groupId\<close> of a device (\<^verbatim>\<open>name\<close>, \<^verbatim>\<open>area\<close>, \<^verbatim>\<open>description\<close>,
  \<^verbatim>\<open>calendarId\<close> and \<^verbatim>\<open>attributes\<close> of a geofence); every other entry keeps the
  fetched value.
\<close>

theorem update_overlays_supplied_fields:
  assumes "replies (session c) = r # rs" and "status_code r = 200"
    and "decoded r = Some (PList (PDict info # rest))"
    and "distinct (map fst info)"
  shows "sent (session (snd (update_device L c i n u g ph m co ca)))
           = sent (session c) @
               [\<lparr>meth = GET, url = urls c Devices, params = Some [(PStr ''id'', i)],
                 data = None, json = None, headers = None\<rparr>,
                \<lparr>meth = PUT, url = urls c Devices @ ''/'' @ str_of L i, params = None,
                 data = Some (Raw (dumps L (PDict
                   (map (\<lambda>(k, v). (k,
                      if k = ''name''
                        then (case n of None \<Rightarrow> v | Some x \<Rightarrow> if x = PNone then v else x)
                      else if k = ''uniqueId''
                        then (case u of None \<Rightarrow> v | Some x \<Rightarrow> if x = PNone then v else x)
                      else if k = ''phone''
                        then (case ph of None \<Rightarrow> v | Some x \<Rightarrow> if x = PNone then v else x)
                      else if k = ''model''
                        then (case m of None \<Rightarrow> v | Some x \<Rightarrow> if x = PNone then v else x)
                      else if k = ''contact''
                        then (case co of None \<Rightarrow> v | Some x \<Rightarrow> if x = PNone then v else x)
                      else if k = ''category''
                        then (case ca of None \<Rightarrow> v | Some x \<Rightarrow> if x = PNone then v else x)
                      else if k = ''groupId''
                        then (case g of None \<Rightarrow> v | Some x \<Rightarrow> if x = PNone then v else x)
                      else v)) info)))),
                 json = None, headers = Some [(''Content-Type'', ''application/json'')]\<rparr>]
       \<and> sent (session (snd (update_geofence L c i n a d cal at)))
           = sent (session c) @
               [\<lparr>meth = GET, url = urls c Geofences, params = Some [(PStr ''id'', i)],
                 data = None, json = None, headers = None\<rparr>,
                \<lparr>meth = PUT, url = urls c Geofences @ ''/'' @ str_of L i, params = None,
                 data = Some (Raw (dumps L (PDict
                   (map (\<lambda>(k, v). (k,
                      if k = ''name''
                        then (case n of None \<Rightarrow> v | Some x \<Rightarrow> if x = PNone then v else x)
                      else if k = ''area''
                        then (case a of None \<Rightarrow> v | Some x \<Rightarrow> if x = PNone then v else x)
                      else if k = ''description''
                        then (case d of None \<Rightarrow> v | Some x \<Rightarrow> if x = PNone then v else x)
                      else if k = ''calendarId''
                        then (case cal of None \<Rightarrow> v | Some x \<Rightarrow> if x = PNone then v else x)
                      else if k = ''attributes''
                        then (case at of None \<Rightarrow> v | Some x \<Rightarrow> if x = PNone then v else x)
                      else v)) info)))),
                 json = None, headers = Some [(''Content-Type'', ''application/json'')]\<rparr>]"
proof -
  have dev: "merge_update (device_update n u g ph m co ca) info
      = map (\<lambda>(k, v). (k, overlay (device_update n u g ph m co ca) k v)) info"
    using assms(4) by (rule merge_update_distinct)
  have geo: "merge_update (geofence_update n a d cal at) info
      = map (\<lambda>(k, v). (k, overlay (geofence_update n a d cal at) k v)) info"
    using assms(4) by (rule merge_update_distinct)
  have "sent (session (snd (update_device L c i n u g ph m co ca)))
          = sent (session c) @
              [req_get (urls c Devices) (Some [(PStr ''id'', i)]),
               req_put L (urls c Devices) i
                 (map (\<lambda>(k, v). (k, overlay (device_update n u g ph m co ca) k v)) info)]"
    using put_merged_sent [OF assms(1,2,3)]
    by (simp add: update_device_def get_devices_def dev)
  moreover
  have "sent (session (snd (update_geofence L c i n a d cal at)))
          = sent (session c) @
              [req_get (urls c Geofences) (Some [(PStr ''id'', i)]),
               req_put L (urls c Geofences) i
                 (map (\<lambda>(k, v). (k, overlay (geofence_update n a d cal at) k v)) info)]"
    using put_merged_sent [OF assms(1,2,3)]
    by (simp add: update_geofence_def get_geofences_def geo)
  ultimately show ?thesis
    by (simp only: req_get_def req_put_def overlay_device_update overlay_geofence_update
          simp_thms)
qed

text \<open>
  \<^verbatim>\<open>update_device(7, name="X")\<close> on a device whose record has \<^verbatim>\<open>phone="555"\<close>
  submits the record with \<^verbatim>\<open>name == "X"\<close> and \<^verbatim>\<open>phone == "555"\<close>, whatever the
  serialiser; and an \<^verbatim>\<open>update_geofence\<close> that gives a new \<^verbatim>\<open>area\<close> only.
\<close>

theorem update_overlays_supplied_fields_witness:
  "(\<forall>L. sent (session (snd (update_device L
      (init ''http://t''
         [reply 200 ''[..]''
            (Some (PList [PDict [(''id'', PInt 7), (''name'', PStr ''old''),
                                 (''phone'', PStr ''555'')]])),
          reply 200 ''{..}'' (Some (PDict []))])
      (PInt 7) (Some (PStr ''X'')) None None None None None None)))
     = [\<lparr>meth = GET, url = ''http://t/api/devices'', params = Some [(PStr ''id'', PInt 7)],
         data = None, json = None, headers = None\<rparr>,
        \<lparr>meth = PUT, url = ''http://t/api/devices/'' @ str_of L (PInt 7), params = None,
         data = Some (Raw (dumps L (PDict
           [(''id'', PInt 7), (''name'', PStr ''X''), (''phone'', PStr ''555'')]))),
         json = None, headers = Some [(''Content-Type'', ''application/json'')]\<rparr>])
   \<and> (\<forall>L. sent (session (snd (update_geofence L
      (init ''http://t''
         [reply 200 ''[..]''
            (Some (PList [PDict [(''id'', PInt 3), (''name'', PStr ''yard''),
                                 (''area'', PStr ''CIRCLE (1 2, 30)'')]])),
          reply 200 ''{..}'' (Some (PDict []))])
      (PInt 3) None (Some (PStr ''CIRCLE (1 2, 50)'')) None None None)))
     = [\<lparr>meth = GET, url = ''http://t/api/geofences'', params = Some [(PStr ''id'', PInt 3)],
         data = None, json = None, headers = None\<rparr>,
        \<lparr>meth = PUT, url = ''http://t/api/geofences/'' @ str_of L (PInt 3), params = None,
         data = Some (Raw (dumps L (PDict
           [(''id'', PInt 3), (''name'', PStr ''yard''),
            (''area'', PStr ''CIRCLE (1 2, 50)'')]))),
         json = None, headers = Some [(''Content-Type'', ''application/json'')]\<rparr>])"
proof (intro conjI allI)
  fix L
  let ?info = "[(''id'', PInt 7), (''name'', PStr ''old''), (''phone'', PStr ''555'')]"
  let ?r = "reply 200 ''[..]'' (Some (PList [PDict ?info]))"
  let ?c = "init ''http://t'' [?r, reply 200 ''{..}'' (Some (PDict []))]"
  have h: "replies (session ?c) = ?r # [reply 200 ''{..}'' (Some (PDict []))]"
    "status_code ?r = 200" "decoded ?r = Some (PList (PDict ?info # []))"
    "distinct (map fst ?info)"
    by (simp_all add: init_def reply_def)
  have c: "sent (session ?c) = []" "urls ?c Devices = ''http://t/api/devices''"
    by (simp_all add: init_def)
  from conjunct1 [OF update_overlays_supplied_fields [OF h,
      of L "PInt 7" "Some (PStr ''X'')" None None None None None None None None None None]]
  show "sent (session (snd (update_device L ?c
      (PInt 7) (Some (PStr ''X'')) None None None None None None)))
     = [\<lparr>meth = GET, url = ''http://t/api/devices'', params = Some [(PStr ''id'', PInt 7)],
         data = None, json = None, headers = None\<rparr>,
        \<lparr>meth = PUT, url = ''http://t/api/devices/'' @ str_of L (PInt 7), params = None,
         data = Some (Raw (dumps L (PDict
           [(''id'', PInt 7), (''name'', PStr ''X''), (''phone'', PStr ''555'')]))),
         json = None, headers = Some [(''Content-Type'', ''application/json'')]\<rparr>]"
    by (simp add: c)
next
  fix L
  let ?info = "[(''id'', PInt 3), (''name'', PStr ''yard''),
                (''area'', PStr ''CIRCLE (1 2, 30)'')]"
  let ?r = "reply 200 ''[..]'' (Some (PList [PDict ?info]))"
  let ?c = "init ''http://t'' [?r, reply 200 ''{..}'' (Some (PDict []))]"
  have h: "replies (session ?c) = ?r # [reply 200 ''{..}'' (Some (PDict []))]"
    "status_code ?r = 200" "decoded ?r = Some (PList (PDict ?info # []))"
    "distinct (map fst ?info)"
    by (simp_all add: init_def reply_def)
  have c: "sent (session ?c) = []" "urls ?c Geofences = ''http://t/api/geofences''"
    by (simp_all add: init_def)
  from conjunct2 [OF update_overlays_supplied_fields [OF h,
      of L "PInt 3" None None None None None None None
        "Some (PStr ''CIRCLE (1 2, 50)'')" None None None]]
  show "sent (session (snd (update_geofence L ?c
      (PInt 3) None (Some (PStr ''CIRCLE (1 2, 50)'')) None None None)))
     = [\<lparr>meth = GET, url = ''http://t/api/geofences'', params = Some [(PStr ''id'', PInt 3)],
         data = None, json = None, headers = None\<rparr>,
        \<lparr>meth = PUT, url = ''http://t/api/geofences/'' @ str_of L (PInt 3), params = None,
         data = Some (Raw (dumps L (PDict
           [(''id'', PInt 3), (''name'', PStr ''yard''),
            (''area'', PStr ''CIRCLE (1 2, 50)'')]))),
         json = None, headers = Some [(''Content-Type'', ''application/json'')]\<rparr>]"
    by (simp add: c)
qed

text \<open>
  Claim C2. \<^verbatim>\<open>login_with_token\<close> sends the token as query parameter of a GET on the
  session URL. On status 200 the token is cached and the result is \<^verbatim>\<open>req.json()\<close>; on
  404 \<^verbatim>\<open>InvalidTokenException\<close> is raised and on any other status
  \<^verbatim>\<open>TraccarApiException\<close> with the response text, and in both the cached token is the
  one before the call.
\<close>

theorem login_with_token_dispatch:
  assumes "replies (session c) = r # rs"
  shows "sent (session (snd (login_with_token c tok))) =
           sent (session c) @ [req_get (urls c Session) (Some [(PStr ''token'', tok)])]
       \<and> (status_code r = 200 \<longrightarrow>
            fst (login_with_token c tok) = json_of r
          \<and> token (snd (login_with_token c tok)) = tok)
       \<and> (status_code r = 404 \<longrightarrow>
            fst (login_with_token c tok) = Inl InvalidTokenException
          \<and> token (snd (login_with_token c tok)) = token c)
       \<and> (status_code r \<noteq> 200 \<and> status_code r \<noteq> 404 \<longrightarrow>
            fst (login_with_token c tok) = Inl (TraccarApiException (body_text r))
          \<and> token (snd (login_with_token c tok)) = token c)"
  using assms by (simp add: login_with_token_def send_reply Let_def)

text \<open>One run for each of the three outcomes.\<close>

theorem login_with_token_dispatch_witness:
  "fst (login_with_token (init ''http://t'' [reply 200 ''{}'' (Some (PDict []))]) (PStr ''abc''))
     = Inr (PDict [])
   \<and> token (snd (login_with_token (init ''http://t'' [reply 200 ''{}'' (Some (PDict []))])
        (PStr ''abc''))) = PStr ''abc''
   \<and> fst (login_with_token (init ''http://t'' [reply 404 ''no'' None]) (PStr ''abc''))
     = Inl InvalidTokenException
   \<and> token (snd (login_with_token (init ''http://t'' [reply 404 ''no'' None]) (PStr ''abc'')))
     = PStr ''''
   \<and> fst (login_with_token (init ''http://t'' [reply 500 ''down'' None]) (PStr ''abc''))
     = Inl (TraccarApiException ''down'')
   \<and> token (snd (login_with_token (init ''http://t'' [reply 500 ''down'' None]) (PStr ''abc'')))
     = PStr ''''"
  using
    login_with_token_dispatch [of "init ''http://t'' [reply 200 ''{}'' (Some (PDict []))]"
      "reply 200 ''{}'' (Some (PDict []))" "[]" "PStr ''abc''"]
    login_with_token_dispatch [of "init ''http://t'' [reply 404 ''no'' None]"
      "reply 404 ''no'' None" "[]" "PStr ''abc''"]
    login_with_token_dispatch [of "init ''http://t'' [reply 500 ''down'' None]"
      "reply 500 ''down'' None" "[]" "PStr ''abc''"]
  by (simp add: init_def reply_def json_of_def)

text \<open>
  Claim C3. \<^verbatim>\<open>set_permissions(userId)\<close> with \<^verbatim>\<open>deviceId\<close> and \<^verbatim>\<open>groupId\<close> at their
  default 0 (left out, or given as 0): no branch assigns \<^verbatim>\<open>data\<close>, the call raises
  \<^verbatim>\<open>UnboundLocalError\<close>, and the client is as before, so no request was made.
\<close>

theorem set_permissions_both_zero:
  "permissions_data u None None = None
   \<and> set_permissions c u None None = (Inl UnboundLocalError, c)
   \<and> set_permissions c u (Some (PInt 0)) (Some (PInt 0)) = (Inl UnboundLocalError, c)"
  by (simp add: set_permissions_def permissions_data_def dflt_def)

text \<open>
  Claim C4, at \<^verbatim>\<open>create_geofence(name, area, calendarId=5)\<close>: the body that is posted
  has the keys \<^verbatim>\<open>id\<close>, \<^verbatim>\<open>name\<close>, \<^verbatim>\<open>description\<close> and \<^verbatim>\<open>area\<close> only. The
  arguments \<^verbatim>\<open>calendarId\<close> and \<^verbatim>\<open>attributes\<close> of the operation are not sent.
\<close>

theorem create_geofence_ignores_calendarId:
  "sent (session (snd (create_geofence L (init ''http://t'' []) (PStr ''home'')
      (PStr ''CIRCLE (1 2, 30)'') None (Some (PInt 5)) None)))
     = [\<lparr>meth = POST, url = ''http://t/api/geofences'', params = None, data = None,
         json = Some (PDict
           [(''id'', PInt (- 1)),
            (''name'', PStr ''home''),
            (''description'', PStr ''''),
            (''area'', PStr (str_of L (PStr ''CIRCLE (1 2, 30)'')))]),
         headers = None\<rparr>]"
  by (simp add: create_geofence_def create_geofence_data_def post_json_def send_no_reply
        init_def dflt_def)

text \<open>
  Claim C5. The token of a new client is the empty string. An operation after which the
  token differs from the one before is a \<^verbatim>\<open>login_with_token\<close> that was answered with
  status 200 (and the token is then its argument). \<^verbatim>\<open>login_with_credentials\<close> leaves
  the token as it was, whatever the outcome. A run from a new client without a
  \<^verbatim>\<open>login_with_token\<close> ends with the empty token.
\<close>

theorem token_only_set_by_token_login:
  "token (init base_url script) = PStr ''''
   \<and> (token (snd (exec L c x)) \<noteq> token c \<longrightarrow>
        (\<exists>t r rs. x = Login_with_token t \<and> replies (session c) = r # rs
           \<and> status_code r = 200 \<and> token (snd (exec L c x)) = t))
   \<and> token (snd (login_with_credentials c username password)) = token c
   \<and> ((\<forall>t. Login_with_token t \<notin> set xs) \<longrightarrow>
        token (run L (init base_url script) xs) = PStr '''')"
proof (intro conjI impI)
  show "token (init base_url script) = PStr ''''" by (simp add: init_def)
next
  assume ch: "token (snd (exec L c x)) \<noteq> token c"
  then obtain t where x: "x = Login_with_token t"
    using token_exec_other [of x L c] by auto
  with ch show "\<exists>t r rs. x = Login_with_token t \<and> replies (session c) = r # rs
           \<and> status_code r = 200 \<and> token (snd (exec L c x)) = t"
    by (cases "replies (session c)") (auto simp: token_login_with_token split: if_splits)
next
  show "token (snd (login_with_credentials c username password)) = token c"
    by (rule token_login_with_credentials)
next
  assume "\<forall>t. Login_with_token t \<notin> set xs"
  then show "token (run L (init base_url script) xs) = PStr ''''"
    by (simp add: token_run_no_token_login init_def)
qed

text \<open>A token login that changes the token, and a run of other calls that does not.\<close>

theorem token_only_set_by_token_login_witness:
  "token (snd (exec stub_lib (init ''http://t'' [reply 200 ''{}'' (Some (PDict []))])
       (Login_with_token (PStr ''abc'')))) = PStr ''abc''
   \<and> token (run stub_lib
        (init ''http://t'' [reply 200 ''{}'' (Some (PDict [])), reply 401 ''no'' None])
        [Login_with_credentials (PStr ''me'') (PStr ''pw''),
         Login_with_credentials (PStr ''me'') (PStr ''bad''),
         Get_all_devices]) = PStr ''''"
proof -
  let ?c = "init ''http://t'' [reply 200 ''{}'' (Some (PDict []))]"
  have "token (snd (exec stub_lib ?c (Login_with_token (PStr ''abc'')))) \<noteq> token ?c"
    by (simp add: login_with_token_def Let_def send_reply init_def reply_def)
  with token_only_set_by_token_login [of "''http://t''" "[]" stub_lib ?c
         "Login_with_token (PStr ''abc'')" PNone PNone "[]"]
  have a: "token (snd (exec stub_lib ?c (Login_with_token (PStr ''abc'')))) = PStr ''abc''"
    by blast
  have "\<forall>t. Login_with_token t \<notin> set [Login_with_credentials (PStr ''me'') (PStr ''pw''),
         Login_with_credentials (PStr ''me'') (PStr ''bad''), Get_all_devices]"
    by simp
  with token_only_set_by_token_login [of "''http://t''"
         "[reply 200 ''{}'' (Some (PDict [])), reply 401 ''no'' None]" stub_lib ?c
         "Token" PNone PNone
         "[Login_with_credentials (PStr ''me'') (PStr ''pw''),
           Login_with_credentials (PStr ''me'') (PStr ''bad''), Get_all_devices]"]
  have b: "token (run stub_lib
        (init ''http://t'' [reply 200 ''{}'' (Some (PDict [])), reply 401 ''no'' None])
        [Login_with_credentials (PStr ''me'') (PStr ''pw''),
         Login_with_credentials (PStr ''me'') (PStr ''bad''),
         Get_all_devices]) = PStr ''''"
    by blast
  from a b show ?thesis by simp
qed

text \<open>
  Claim C6. \<^verbatim>\<open>login_with_credentials\<close> posts the form \<^verbatim>\<open>email\<close>, \<^verbatim>\<open>password\<close> to
  the session URL. On status 200 the result is \<^verbatim>\<open>req.json()\<close>, on 401
  \<^verbatim>\<open>ForbiddenAccessException\<close> is raised, on any other status
  \<^verbatim>\<open>TraccarApiException\<close> with the response text.
\<close>

theorem login_with_credentials_dispatch:
  assumes "replies (session c) = r # rs"
  shows "sent (session (snd (login_with_credentials c username password))) =
           sent (session c) @
             [\<lparr>meth = POST, url = urls c Session, params = None,
               data = Some (Form [(''email'', username), (''password'', password)]),
               json = None, headers = None\<rparr>]
       \<and> (status_code r = 200 \<longrightarrow>
            fst (login_with_credentials c username password) = json_of r)
       \<and> (status_code r = 401 \<longrightarrow>
            fst (login_with_credentials c username password) = Inl ForbiddenAccessException)
       \<and> (status_code r \<noteq> 200 \<and> status_code r \<noteq> 401 \<longrightarrow>
            fst (login_with_credentials c username password)
              = Inl (TraccarApiException (body_text r)))"
  using assms by (simp add: login_with_credentials_def send_reply Let_def)

text \<open>One run for each of the three outcomes.\<close>

theorem login_with_credentials_dispatch_witness:
  "sent (session (snd (login_with_credentials
       (init ''http://t'' [reply 200 ''{}'' (Some (PDict []))]) (PStr ''me'') (PStr ''pw''))))
     = [\<lparr>meth = POST, url = ''http://t/api/session'', params = None,
         data = Some (Form [(''email'', PStr ''me''), (''password'', PStr ''pw'')]),
         json = None, headers = None\<rparr>]
   \<and> fst (login_with_credentials (init ''http://t'' [reply 200 ''{}'' (Some (PDict []))])
        (PStr ''me'') (PStr ''pw'')) = Inr (PDict [])
   \<and> fst (login_with_credentials (init ''http://t'' [reply 401 ''no'' None])
        (PStr ''me'') (PStr ''pw'')) = Inl ForbiddenAccessException
   \<and> fst (login_with_credentials (init ''http://t'' [reply 500 ''down'' None])
        (PStr ''me'') (PStr ''pw'')) = Inl (TraccarApiException ''down'')"
  using
    login_with_credentials_dispatch [of "init ''http://t'' [reply 200 ''{}'' (Some (PDict []))]"
      "reply 200 ''{}'' (Some (PDict []))" "[]" "PStr ''me''" "PStr ''pw''"]
    login_with_credentials_dispatch [of "init ''http://t'' [reply 401 ''no'' None]"
      "reply 401 ''no'' None" "[]" "PStr ''me''" "PStr ''pw''"]
    login_with_credentials_dispatch [of "init ''http://t'' [reply 500 ''down'' None]"
      "reply 500 ''down'' None" "[]" "PStr ''me''" "PStr ''pw''"]
  by (simp add: init_def reply_def json_of_def)

text \<open>
  Claim C7. \<^verbatim>\<open>set_permissions\<close> with exactly one of \<^verbatim>\<open>deviceId\<close>, \<^verbatim>\<open>groupId\<close>
  different from 0 posts the JSON body \<^verbatim>\<open>{userId, deviceId}\<close> when it is
  \<^verbatim>\<open>deviceId\<close> and \<^verbatim>\<open>{userId, groupId}\<close> when it is \<^verbatim>\<open>groupId\<close>. On status 204
  it returns the dictionary it posted, on 400 it raises \<^verbatim>\<open>BadRequestException\<close>.
\<close>

theorem set_permissions_one_target:
  assumes "replies (session c) = r # rs"
    and "ne_zero (dflt (PInt 0) d) \<noteq> ne_zero (dflt (PInt 0) g)"
  shows "sent (session (snd (set_permissions c u d g)))
           = sent (session c) @
               [\<lparr>meth = POST, url = urls c Permissions, params = None, data = None,
                 json = Some (PDict
                   (if ne_zero (dflt (PInt 0) d)
                    then [(''userId'', u), (''deviceId'', dflt (PInt 0) d)]
                    else [(''userId'', u), (''groupId'', dflt (PInt 0) g)])),
                 headers = None\<rparr>]
       \<and> (status_code r = 204 \<longrightarrow>
            fst (set_permissions c u d g)
              = Inr (PDict
                   (if ne_zero (dflt (PInt 0) d)
                    then [(''userId'', u), (''deviceId'', dflt (PInt 0) d)]
                    else [(''userId'', u), (''groupId'', dflt (PInt 0) g)])))
       \<and> (status_code r = 400 \<longrightarrow>
            fst (set_permissions c u d g) = Inl (BadRequestException (body_text r)))"
  using assms
  by (auto simp: set_permissions_def permissions_data_def Let_def send_reply)

text \<open>
  \<^verbatim>\<open>set_permissions(userId=1, deviceId=2)\<close> sends and returns
  \<^verbatim>\<open>{"userId": 1, "deviceId": 2}\<close>.
\<close>

theorem set_permissions_one_target_witness:
  "sent (session (snd (set_permissions (init ''http://t'' [reply 204 '''' None])
      (PInt 1) (Some (PInt 2)) None)))
     = [\<lparr>meth = POST, url = ''http://t/api/permissions'', params = None, data = None,
         json = Some (PDict [(''userId'', PInt 1), (''deviceId'', PInt 2)]),
         headers = None\<rparr>]
   \<and> fst (set_permissions (init ''http://t'' [reply 204 '''' None])
        (PInt 1) (Some (PInt 2)) None)
     = Inr (PDict [(''userId'', PInt 1), (''deviceId'', PInt 2)])
   \<and> fst (set_permissions (init ''http://t'' [reply 204 '''' None])
        (PInt 1) None (Some (PInt 4)))
     = Inr (PDict [(''userId'', PInt 1), (''groupId'', PInt 4)])
   \<and> fst (set_permissions (init ''http://t'' [reply 400 ''bad'' None])
        (PInt 1) (Some (PInt 2)) None)
     = Inl (BadRequestException ''bad'')"
  using
    set_permissions_one_target [of "init ''http://t'' [reply 204 '''' None]"
      "reply 204 '''' None" "[]" "Some (PInt 2)" None "PInt 1"]
    set_permissions_one_target [of "init ''http://t'' [reply 204 '''' None]"
      "reply 204 '''' None" "[]" None "Some (PInt 4)" "PInt 1"]
    set_permissions_one_target [of "init ''http://t'' [reply 400 ''bad'' None]"
      "reply 400 ''bad'' None" "[]" "Some (PInt 2)" None "PInt 1"]
  by (simp add: init_def reply_def dflt_def)

text \<open>
  Claim C8, amended. The query parameters of \<^verbatim>\<open>get_events\<close> are \<^verbatim>\<open>from\<close>, \<^verbatim>\<open>to\<close>,
  \<^verbatim>\<open>groupId\<close> and \<^verbatim>\<open>type\<close>. \<^verbatim>\<open>type\<close> is the caller's \<^verbatim>\<open>event_type\<close> when that
  is truthy and \<^verbatim>\<open>"%"\<close> when it is left out or falsy; \<^verbatim>\<open>groupId\<close> is the caller's
  value when that is truthy and \<^verbatim>\<open>"1"\<close> when it is left out or falsy.
\<close>

theorem get_events_defaults:
  "sent (session (snd (get_events c s e t d g)))
     = sent (session c) @
         [\<lparr>meth = GET, url = urls c Reports_events,
           params = Some
             [(PStr ''from'', s),
              (PStr ''to'', e),
              (PStr ''groupId'', if truthy (dflt PNone g) then dflt PNone g else PStr ''1''),
              (PStr ''type'', if truthy (dflt PNone t) then dflt PNone t else PStr ''%'')],
           data = None, json = None, headers = None\<rparr>]"
  by (simp add: get_events_def sent_report_result get_events_data_eq req_get_def)

text \<open>Nothing supplied, and both supplied with truthy values.\<close>

theorem get_events_defaults_witness:
  "sent (session (snd (get_events (init ''http://t'' []) (PStr ''2020-01-01'')
      (PStr ''2020-01-02'') None None None)))
     = [\<lparr>meth = GET, url = ''http://t/api/reports/events'',
         params = Some
           [(PStr ''from'', PStr ''2020-01-01''),
            (PStr ''to'', PStr ''2020-01-02''),
            (PStr ''groupId'', PStr ''1''),
            (PStr ''type'', PStr ''%'')],
         data = None, json = None, headers = None\<rparr>]
   \<and> sent (session (snd (get_events (init ''http://t'' []) (PStr ''2020-01-01'')
      (PStr ''2020-01-02'') (Some (PStr ''deviceOnline'')) None (Some (PInt 3)))))
     = [\<lparr>meth = GET, url = ''http://t/api/reports/events'',
         params = Some
           [(PStr ''from'', PStr ''2020-01-01''),
            (PStr ''to'', PStr ''2020-01-02''),
            (PStr ''groupId'', PInt 3),
            (PStr ''type'', PStr ''deviceOnline'')],
         data = None, json = None, headers = None\<rparr>]"
  using
    get_events_defaults [of "init ''http://t'' []" "PStr ''2020-01-01''" "PStr ''2020-01-02''"
      None None None]
    get_events_defaults [of "init ''http://t'' []" "PStr ''2020-01-01''" "PStr ''2020-01-02''"
      "Some (PStr ''deviceOnline'')" None "Some (PInt 3)"]
  by (simp add: init_def dflt_def)

text \<open>
  Claim C8 as stated fails for a supplied value that is falsy: with \<^verbatim>\<open>groupId=0\<close> and
  an event type both supplied, the request carries \<^verbatim>\<open>groupId="1"\<close>, not the caller's 0.
\<close>

theorem get_events_supplied_zero_counterexample:
  "sent (session (snd (get_events (init ''http://t'' []) (PStr ''2020-01-01'')
      (PStr ''2020-01-02'') (Some (PStr ''deviceOnline'')) None (Some (PInt 0)))))
     = [\<lparr>meth = GET, url = ''http://t/api/reports/events'',
         params = Some
           [(PStr ''from'', PStr ''2020-01-01''),
            (PStr ''to'', PStr ''2020-01-02''),
            (PStr ''groupId'', PStr ''1''),
            (PStr ''type'', PStr ''deviceOnline'')],
         data = None, json = None, headers = None\<rparr>]
   \<and> sent (session (snd (get_events (init ''http://t'' []) (PStr ''2020-01-01'')
      (PStr ''2020-01-02'') (Some (PStr ''deviceOnline'')) None (Some (PInt 0)))))
     \<noteq> [\<lparr>meth = GET, url = ''http://t/api/reports/events'',
         params = Some
           [(PStr ''from'', PStr ''2020-01-01''),
            (PStr ''to'', PStr ''2020-01-02''),
            (PStr ''groupId'', PInt 0),
            (PStr ''type'', PStr ''deviceOnline'')],
         data = None, json = None, headers = None\<rparr>]"
  by (simp add: get_events_def sent_report_result get_events_data_def Let_def req_get_def
        init_def dflt_def)



text \<open>
  Claim C10, amended. \<^verbatim>\<open>get_devices\<close> and \<^verbatim>\<open>get_geofences\<close> with a query that is
  left out, \<^verbatim>\<open>None\<close> or falsy issue a GET without query parameters; the client after
  the call is the same for every \<^verbatim>\<open>params\<close>, on status 200 the result is
  \<^verbatim>\<open>req.json()\<close>, and on every status but 400 the whole outcome is the one of the call
  without \<^verbatim>\<open>params\<close>. On status 400 the exception \<^verbatim>\<open>ObjectNotFoundException\<close>
  carries \<^verbatim>\<open>params\<close> as its \<^verbatim>\<open>obj\<close>.
\<close>

theorem falsy_query_sends_no_params:
  assumes "\<not> truthy (dflt PNone q)"
  shows "sent (session (snd (get_devices c q p)))
           = sent (session c) @
               [\<lparr>meth = GET, url = urls c Devices, params = None, data = None,
                 json = None, headers = None\<rparr>]
       \<and> snd (get_devices c q p) = snd (get_devices c q None)
       \<and> (\<forall>r rs. replies (session c) = r # rs \<and> status_code r = 200 \<longrightarrow>
             fst (get_devices c q p) = json_of r)
       \<and> (\<forall>r rs. replies (session c) = r # rs \<and> status_code r \<noteq> 400 \<longrightarrow>
             get_devices c q p = get_devices c q None)
       \<and> sent (session (snd (get_geofences c q p)))
           = sent (session c) @
               [\<lparr>meth = GET, url = urls c Geofences, params = None, data = None,
                 json = None, headers = None\<rparr>]
       \<and> snd (get_geofences c q p) = snd (get_geofences c q None)
       \<and> (\<forall>r rs. replies (session c) = r # rs \<and> status_code r = 200 \<longrightarrow>
             fst (get_geofences c q p) = json_of r)
       \<and> (\<forall>r rs. replies (session c) = r # rs \<and> status_code r \<noteq> 400 \<longrightarrow>
             get_geofences c q p = get_geofences c q None)
       \<and> (\<forall>r rs. replies (session c) = r # rs \<and> status_code r = 400 \<longrightarrow>
             fst (get_devices c q p)
               = Inl (ObjectNotFoundException (case p of None \<Rightarrow> PNone | Some v \<Rightarrow> v)
                        ''Device''))
       \<and> (\<forall>r rs. replies (session c) = r # rs \<and> status_code r = 400 \<longrightarrow>
             fst (get_geofences c q p)
               = Inl (ObjectNotFoundException (case p of None \<Rightarrow> PNone | Some v \<Rightarrow> v)
                        ''Geofence''))"
proof -
  have filtered:
    "sent (session (snd (get_filtered res ty c q p)))
       = sent (session c) @
           [\<lparr>meth = GET, url = urls c res, params = None, data = None,
             json = None, headers = None\<rparr>]
     \<and> snd (get_filtered res ty c q p) = snd (get_filtered res ty c q None)
     \<and> (\<forall>r rs. replies (session c) = r # rs \<and> status_code r = 200 \<longrightarrow>
           fst (get_filtered res ty c q p) = json_of r)
     \<and> (\<forall>r rs. replies (session c) = r # rs \<and> status_code r \<noteq> 400 \<longrightarrow>
           get_filtered res ty c q p = get_filtered res ty c q None)" for res ty
  proof (intro conjI allI impI)
    show "sent (session (snd (get_filtered res ty c q p)))
       = sent (session c) @
           [\<lparr>meth = GET, url = urls c res, params = None, data = None,
             json = None, headers = None\<rparr>]"
      by (rule get_filtered_falsy_sent [OF assms])
  next
    show "snd (get_filtered res ty c q p) = snd (get_filtered res ty c q None)"
      by (rule get_filtered_falsy_session [OF assms])
  next
    fix r rs assume "replies (session c) = r # rs \<and> status_code r = 200"
    then show "fst (get_filtered res ty c q p) = json_of r"
      using get_filtered_falsy_ok [OF assms] by blast
  next
    fix r rs assume "replies (session c) = r # rs \<and> status_code r \<noteq> 400"
    then show "get_filtered res ty c q p = get_filtered res ty c q None"
      using get_filtered_falsy_not_400 [OF assms] by blast
  qed
  have rejected:
    "\<forall>r rs. replies (session c) = r # rs \<and> status_code r = 400 \<longrightarrow>
       fst (get_filtered res ty c q p)
         = Inl (ObjectNotFoundException (case p of None \<Rightarrow> PNone | Some v \<Rightarrow> v) ty)"
    for res ty
    using get_filtered_falsy_400 [OF assms] by blast
  from filtered [of Devices "''Device''"] filtered [of Geofences "''Geofence''"]
    rejected [of Devices "''Device''"] rejected [of Geofences "''Geofence''"]
  show ?thesis unfolding get_devices_def get_geofences_def by blast
qed

text \<open>The empty string as query, with \<^verbatim>\<open>params=5\<close>.\<close>

theorem falsy_query_sends_no_params_witness:
  "sent (session (snd (get_devices (init ''http://t'' [reply 200 ''[]'' (Some (PList []))])
      (Some (PStr '''')) (Some (PInt 5)))))
     = [\<lparr>meth = GET, url = ''http://t/api/devices'', params = None, data = None,
         json = None, headers = None\<rparr>]
   \<and> fst (get_devices (init ''http://t'' [reply 200 ''[]'' (Some (PList []))])
        (Some (PStr '''')) (Some (PInt 5))) = Inr (PList [])
   \<and> sent (session (snd (get_geofences (init ''http://t'' [reply 200 ''[]'' (Some (PList []))])
      None (Some (PInt 5)))))
     = [\<lparr>meth = GET, url = ''http://t/api/geofences'', params = None, data = None,
         json = None, headers = None\<rparr>]"
proof -
  let ?c = "init ''http://t'' [reply 200 ''[]'' (Some (PList []))]"
  have c: "replies (session ?c) = reply 200 ''[]'' (Some (PList [])) # []"
    "status_code (reply 200 ''[]'' (Some (PList []))) = 200"
    "sent (session ?c) = []" "urls ?c Devices = ''http://t/api/devices''"
    "urls ?c Geofences = ''http://t/api/geofences''"
    by (simp_all add: init_def reply_def)
  have e: "\<not> truthy (dflt PNone (Some (PStr '''')))" and n: "\<not> truthy (dflt PNone None)"
    by (simp_all add: dflt_def)
  note d = falsy_query_sends_no_params [OF e, of ?c "Some (PInt 5)"]
  note g = falsy_query_sends_no_params [OF n, of ?c "Some (PInt 5)"]
  from conjunct1 [OF d] have "sent (session (snd (get_devices ?c (Some (PStr '''')) (Some (PInt 5)))))
     = [\<lparr>meth = GET, url = ''http://t/api/devices'', params = None, data = None,
         json = None, headers = None\<rparr>]"
    by (simp add: c)
  moreover from d c(1,2)
  have "fst (get_devices ?c (Some (PStr '''')) (Some (PInt 5)))
          = json_of (reply 200 ''[]'' (Some (PList [])))"
    by blast
  moreover from conjunct1 [OF conjunct2 [OF conjunct2 [OF conjunct2 [OF conjunct2 [OF g]]]]] have "sent (session (snd (get_geofences ?c None (Some (PInt 5)))))
     = [\<lparr>meth = GET, url = ''http://t/api/geofences'', params = None, data = None,
         json = None, headers = None\<rparr>]"
    by (simp add: c)
  ultimately show ?thesis by (simp add: json_of_def reply_def)
qed

text \<open>
  Claim C10 as stated fails on status 400: without a query, the calls with
  \<^verbatim>\<open>params=5\<close> and with \<^verbatim>\<open>params=6\<close> raise different exceptions, so \<^verbatim>\<open>params\<close> is
  not ignored.
\<close>

theorem falsy_query_params_in_exception_counterexample:
  "fst (get_devices (init ''http://t'' [reply 400 ''none'' None]) None (Some (PInt 5)))
     = Inl (ObjectNotFoundException (PInt 5) ''Device'')
   \<and> fst (get_devices (init ''http://t'' [reply 400 ''none'' None]) None (Some (PInt 6)))
     = Inl (ObjectNotFoundException (PInt 6) ''Device'')
   \<and> fst (get_devices (init ''http://t'' [reply 400 ''none'' None]) None (Some (PInt 5)))
     \<noteq> fst (get_devices (init ''http://t'' [reply 400 ''none'' None]) None (Some (PInt 6)))
   \<and> fst (get_geofences (init ''http://t'' [reply 400 ''none'' None]) None (Some (PInt 5)))
     = Inl (ObjectNotFoundException (PInt 5) ''Geofence'')"
  by (simp add: get_devices_def get_geofences_def get_filtered_def Let_def dflt_def
        send_reply init_def reply_def)

end
